theory Spec2Isabelle
  imports Complex_Main
begin

section \<open>API models (frontend/js/api/models.ts)\<close>

text \<open>
  The TypeScript interfaces of the API models, one record per interface. A union of
  string literals is a datatype with one constructor per literal, together with the
  function giving the literal the value has on the wire; an optional field
  (\<^verbatim>\<open>field?: T\<close>) is an \<open>option\<close>; \<^verbatim>\<open>number\<close> fields holding identifiers are
  \<open>int\<close>; a field of type \<^verbatim>\<open>any\<close> is kept as the text of its JSON document.
\<close>

type_synonym json = string

datatype js_number = Finite real | PosInfinity | NegInfinity | NaN

record job_description =
  id :: int
  title :: string
  description :: string
  requirements :: "string option"
  is_active :: bool
  created :: string
  modified :: string

datatype candidate_status = Pending | Processing | Completed | Error

fun candidate_status_literal :: "candidate_status \<Rightarrow> string" where
  "candidate_status_literal Pending = ''pending''"
| "candidate_status_literal Processing = ''processing''"
| "candidate_status_literal Completed = ''completed''"
| "candidate_status_literal Error = ''error''"

record resume =
  id :: int
  resume_file :: string
  original_filename :: string
  file_type :: string
  extracted_text :: "string option"
  candidate :: int
  created :: string
  modified :: string

datatype recommendation = Interview | Decline

fun recommendation_literal :: "recommendation \<Rightarrow> string" where
  "recommendation_literal Interview = ''interview''"
| "recommendation_literal Decline = ''decline''"

record evaluation =
  id :: int
  overall_score :: js_number
  resume_score :: js_number
  github_score :: "js_number option"
  linkedin_score :: "js_number option"
  ai_summary :: string
  recommendation :: recommendation
  github_analysis :: "json option"
  linkedin_analysis :: "json option"
  generated_report :: "string option"
  candidate :: int
  created :: string
  modified :: string

datatype decision = Decision_interview | Decision_decline | Decision_pending

fun decision_literal :: "decision \<Rightarrow> string" where
  "decision_literal Decision_interview = ''interview''"
| "decision_literal Decision_decline = ''decline''"
| "decision_literal Decision_pending = ''pending''"

record stakeholder_feedback =
  id :: int
  comments :: string
  decision :: decision
  evaluation :: int
  stakeholder :: int
  created :: string
  modified :: string

record audit_step =
  step :: string
  timestamp :: string

record candidate =
  id :: int
  name :: string
  email :: string
  phone :: "string option"
  linkedin_url :: "string option"
  github_url :: "string option"
  status :: candidate_status
  celery_task_id :: "string option"
  error_message :: "string option"
  audit_log :: "audit_step list"
  job_description :: job_description
  submitted_by :: int
  created :: string
  modified :: string
  resume :: "resume option"
  evaluation :: "evaluation option"

subsection \<open>The state and decision sets as the specification words them\<close>

text \<open>
  The lifecycle states of the specification's candidate state machine (section 4.1),
  for comparison with \<open>candidate_status\<close>.
\<close>

definition spec_lifecycle_states :: "string list" where
  "spec_lifecycle_states =
     [''Submitted'', ''ParsingResume'', ''DetectingProfile'', ''FetchingProfileData'',
      ''Evaluating'', ''GeneratingReport'', ''Notifying'', ''Completed'', ''Failed'']"

text \<open>
  The decisions of a StakeholderFeedback as the specification lists them (section 3),
  for comparison with \<open>decision\<close>.
\<close>

definition spec_decisions :: "string list" where
  "spec_decisions = [''interview'', ''decline'', ''comment-only'']"

section \<open>JavaScript values\<close>

text \<open>
  A \<^verbatim>\<open>number\<close> is a double: a finite value (a real number), an infinity or NaN.
  The relational operators are false as soon as an operand is NaN.
\<close>

fun js_lt :: "js_number \<Rightarrow> js_number \<Rightarrow> bool" where
  "js_lt NaN _ = False"
| "js_lt _ NaN = False"
| "js_lt (Finite a) (Finite b) = (a < b)"
| "js_lt NegInfinity NegInfinity = False"
| "js_lt NegInfinity _ = True"
| "js_lt (Finite _) PosInfinity = True"
| "js_lt _ _ = False"

fun js_ge :: "js_number \<Rightarrow> js_number \<Rightarrow> bool" where
  "js_ge NaN _ = False"
| "js_ge _ NaN = False"
| "js_ge a b = (\<not> js_lt a b)"

text \<open>
  \<^verbatim>\<open>value && element\<close> in JSX renders the element when the value is truthy: an
  optional string is truthy when it is present and not empty.
\<close>

fun truthy :: "string option \<Rightarrow> bool" where
  "truthy None = False"
| "truthy (Some s) = (s \<noteq> [])"

text \<open>
  \<^verbatim>\<open>String.prototype.replace(pattern, replacement)\<close> with a one-character string
  pattern replaces the first occurrence only.
\<close>

fun replace :: "string \<Rightarrow> char \<Rightarrow> char \<Rightarrow> string" where
  "replace [] p r = []"
| "replace (c # cs) p r = (if c = p then r # cs else c # replace cs p r)"

text \<open>
  \<^verbatim>\<open>Array.prototype.slice(start, end)\<close>: a negative index counts from the end, and
  both are clamped to the array.
\<close>

definition slice :: "'a list \<Rightarrow> int \<Rightarrow> int \<Rightarrow> 'a list" where
  "slice xs start end' =
     (let len = int (length xs);
          k = (if start < 0 then max (len + start) 0 else min start len);
          final = (if end' < 0 then max (len + end') 0 else min end' len)
      in take (nat (final - k)) (drop (nat k) xs))"

text \<open>
  \<^verbatim>\<open>Array.prototype.filter((element, index) => ...)\<close>: the loop over the indices from
  \<open>i\<close> on, keeping the elements the callback accepts.
\<close>

fun filter_from :: "nat \<Rightarrow> ('a \<Rightarrow> nat \<Rightarrow> bool) \<Rightarrow> 'a list \<Rightarrow> 'a list" where
  "filter_from i p [] = []"
| "filter_from i p (x # xs) =
     (if p x i then x # filter_from (Suc i) p xs else filter_from (Suc i) p xs)"

definition filter_indexed :: "('a \<Rightarrow> nat \<Rightarrow> bool) \<Rightarrow> 'a list \<Rightarrow> 'a list" where
  "filter_indexed p xs = filter_from 0 p xs"

section \<open>Shared user-interface elements\<close>

datatype badge_variant = Default | Secondary | Destructive | Outline

datatype icon = Eye | RefreshCw | CheckCircle2 | XCircle

text \<open>
  A badge shows a text, or a score as \<^verbatim>\<open>{score}/10\<close> (the number is kept, not its
  decimal notation).
\<close>

datatype badge_content = Text string | Score_of_10 js_number

datatype badge = Badge (variant_of: badge_variant) (content_of: badge_content)

text \<open>An icon button: clicking it calls the handler on the argument.\<close>

datatype 'h button = Button icon 'h int

section \<open>CandidateTable (frontend/js/components/CandidateTable.tsx)\<close>

datatype table_status =
  Table_pending | Table_processing | Table_completed | Table_failed
  | Table_processed | Table_rejected

fun table_status_literal :: "table_status \<Rightarrow> string" where
  "table_status_literal Table_pending = ''pending''"
| "table_status_literal Table_processing = ''processing''"
| "table_status_literal Table_completed = ''completed''"
| "table_status_literal Table_failed = ''failed''"
| "table_status_literal Table_processed = ''processed''"
| "table_status_literal Table_rejected = ''rejected''"

record table_evaluation =
  overall_score :: js_number
  recommendation :: recommendation

record table_candidate =
  id :: int
  name :: string
  email :: string
  status :: table_status
  job_description_title :: string
  created :: string
  evaluation :: "table_evaluation option"

record 'h candidate_table_props =
  candidates :: "table_candidate list"
  onViewDetails :: 'h
  onReprocess :: "'h option"

text \<open>
  The \<^verbatim>\<open>variants\<close> object of \<^verbatim>\<open>getStatusBadge\<close> is an object literal: reading
  \<^verbatim>\<open>variants[status]\<close> finds one of its four own keys, or a property every object
  inherits from \<^verbatim>\<open>Object.prototype\<close> (a function or an object, never a variant name),
  or nothing. Own and inherited values are truthy, so \<^verbatim>\<open>|| 'outline'\<close> supplies the
  variant only when nothing is found.
\<close>

definition object_prototype_properties :: "string list" where
  "object_prototype_properties =
     [''constructor'', ''__defineGetter__'', ''__defineSetter__'', ''hasOwnProperty'',
      ''__lookupGetter__'', ''__lookupSetter__'', ''isPrototypeOf'',
      ''propertyIsEnumerable'', ''toString'', ''valueOf'', ''__proto__'',
      ''toLocaleString'']"

datatype variant_value = Variant badge_variant | Inherited string

definition variants :: "string \<rightharpoonup> variant_value" where
  "variants k =
     (case map_of [(''pending'', Secondary), (''processing'', Default),
                   (''completed'', Outline), (''failed'', Destructive)] k of
        Some v \<Rightarrow> Some (Variant v)
      | None \<Rightarrow> if k \<in> set object_prototype_properties then Some (Inherited k) else None)"

text \<open>The status badge: the value passed as its variant, and the status as its text.\<close>

datatype status_badge = Status_badge variant_value string

definition getStatusBadge :: "string \<Rightarrow> status_badge" where
  "getStatusBadge st =
     Status_badge (case variants st of Some v \<Rightarrow> v | None \<Rightarrow> Variant Outline) st"

definition getRecommendationBadge :: "string \<Rightarrow> badge" where
  "getRecommendationBadge r =
     Badge (if r = ''interview'' then Default else Destructive) (Text r)"

definition getScoreBadge :: "js_number \<Rightarrow> badge" where
  "getScoreBadge score =
     (let variant = Secondary;
          variant = (if js_ge score (Finite 7) then Default
                     else if js_lt score (Finite 5) then Destructive
                     else variant)
      in Badge variant (Score_of_10 score))"

text \<open>
  One row of the table body. The score and recommendation cells hold a badge, or the
  text \<^verbatim>\<open>-\<close> (\<open>None\<close>) for a candidate without evaluation. The date cell is
  \<^verbatim>\<open>new Date(created).toLocaleDateString()\<close>, which depends on the locale of the
  browser and is a parameter of the model.
\<close>

record 'h candidate_row =
  key :: int
  name_cell :: string
  email_cell :: string
  position_cell :: string
  status_cell :: status_badge
  score_cell :: "badge option"
  recommendation_cell :: "badge option"
  submitted_cell :: string
  actions_cell :: "'h button list"

datatype 'h table_body = No_rows string | Rows "'h candidate_row list"

definition CandidateTable_row ::
  "(string \<Rightarrow> string) \<Rightarrow> 'h \<Rightarrow> 'h option \<Rightarrow> table_candidate \<Rightarrow> 'h candidate_row" where
  "CandidateTable_row toLocaleDateString onViewDetails' onReprocess' c =
     \<lparr> key = table_candidate.id c,
       name_cell = table_candidate.name c,
       email_cell = table_candidate.email c,
       position_cell = job_description_title c,
       status_cell = getStatusBadge (table_status_literal (table_candidate.status c)),
       score_cell =
         (case table_candidate.evaluation c of
            Some e \<Rightarrow> Some (getScoreBadge (table_evaluation.overall_score e))
          | None \<Rightarrow> None),
       recommendation_cell =
         (case table_candidate.evaluation c of
            Some e \<Rightarrow>
              Some (getRecommendationBadge
                      (recommendation_literal (table_evaluation.recommendation e)))
          | None \<Rightarrow> None),
       submitted_cell = toLocaleDateString (table_candidate.created c),
       actions_cell =
         Button Eye onViewDetails' (table_candidate.id c) #
         (case onReprocess' of
            Some h \<Rightarrow>
              if table_status_literal (table_candidate.status c) = ''failed''
              then [Button RefreshCw h (table_candidate.id c)] else []
          | None \<Rightarrow> []) \<rparr>"

definition CandidateTable ::
  "(string \<Rightarrow> string) \<Rightarrow> 'h candidate_table_props \<Rightarrow> 'h table_body" where
  "CandidateTable toLocaleDateString props =
     (if length (candidates props) = 0 then No_rows ''No candidates found''
      else Rows (map (CandidateTable_row toLocaleDateString (onViewDetails props)
                        (onReprocess props))
                   (candidates props)))"

text \<open>The reprocess action of a row: a button with the RefreshCw icon.\<close>

fun is_reprocess :: "'h button \<Rightarrow> bool" where
  "is_reprocess (Button ic h a) = (ic = RefreshCw)"

definition offers_reprocess :: "'h candidate_row \<Rightarrow> bool" where
  "offers_reprocess row = list_ex is_reprocess (actions_cell row)"

section \<open>EvaluationCard (frontend/js/components/EvaluationCard.tsx)\<close>

record skill_match =
  score :: js_number
  matched :: bool
  evidence :: string

record technical_depth =
  score :: js_number
  notes_text :: string

record experience_assessment =
  years_of_experience :: js_number
  meets_requirement :: bool
  notes_text :: string

record detailed_analysis =
  summary :: "string option"
  key_highlights :: "string list option"
  concerns :: "string list option"
  skill_matches :: "(string \<times> skill_match) list option"
  technical_depth :: "technical_depth option"
  experience_assessment :: "experience_assessment option"

record card_evaluation =
  overall_score :: js_number
  recommendation :: recommendation
  detailed_analysis :: detailed_analysis

definition getScoreColor :: "js_number \<Rightarrow> string" where
  "getScoreColor score' =
     (if js_ge score' (Finite 7) then ''text-green-600''
      else if js_ge score' (Finite 5) then ''text-yellow-600''
      else ''text-red-600'')"

text \<open>
  The "Overall Assessment" card: the score in its colour, the recommendation badge
  (variant, icon and text) and the summary when there is one.
\<close>

record overall_assessment =
  score_class :: string
  score_shown :: badge_content
  badge_variant :: badge_variant
  badge_icon :: icon
  badge_text :: string
  summary_shown :: "string option"

definition EvaluationCard_overall :: "card_evaluation \<Rightarrow> overall_assessment" where
  "EvaluationCard_overall evaluation' =
     (let overall_score' = card_evaluation.overall_score evaluation';
          recommendation' = recommendation_literal (card_evaluation.recommendation evaluation');
          detailed_analysis' = detailed_analysis evaluation'
      in \<lparr> score_class = getScoreColor overall_score',
            score_shown = Score_of_10 overall_score',
            badge_variant = (if recommendation' = ''interview'' then Default else Destructive),
            badge_icon = (if recommendation' = ''interview'' then CheckCircle2 else XCircle),
            badge_text = (if recommendation' = ''interview'' then ''Interview'' else ''Decline''),
            summary_shown =
              (if truthy (summary detailed_analysis') then summary detailed_analysis'
               else None) \<rparr>)"

section \<open>CandidateDetailSheet (frontend/js/components/CandidateDetailSheet.tsx)\<close>

text \<open>
  A record of the processing log as the sheet reads it (the logs are \<^verbatim>\<open>any[]\<close>):
  the fields \<^verbatim>\<open>renderAuditTrail\<close> uses.
\<close>

record processing_log =
  id :: int
  stage :: string
  status :: string
  message :: "string option"
  error_message :: "string option"
  created :: string

record 'c sheet_state =
  candidate :: "'c option"
  logs :: "processing_log list"
  loading :: bool
  actionLoading :: bool

text \<open>
  \<^verbatim>\<open>fetchData\<close>: nothing happens without a candidate id (\<^verbatim>\<open>null\<close> and \<open>0\<close> are
  falsy). Otherwise both requests are awaited together; \<open>None\<close> is the rejection of
  either, which leaves the candidate and the logs as they were. The log response may
  lack its \<^verbatim>\<open>results\<close>, read as the empty list.
\<close>

definition fetchData ::
  "int option \<Rightarrow> ('c \<times> processing_log list option) option \<Rightarrow> 'c sheet_state \<Rightarrow> 'c sheet_state" where
  "fetchData candidateId responses st =
     (if candidateId = None \<or> candidateId = Some 0 then st
      else case responses of
             Some (candidateRes, results) \<Rightarrow>
               st\<lparr>candidate := Some candidateRes,
                  logs := (case results of Some rs \<Rightarrow> rs | None \<Rightarrow> []),
                  loading := False\<rparr>
           | None \<Rightarrow> st\<lparr>loading := False\<rparr>)"

text \<open>
  One entry of the audit trail. The timestamp is
  \<^verbatim>\<open>new Date(log.created).toLocaleString()\<close>, a parameter of the model as above.
\<close>

record audit_entry =
  entry_key :: int
  stage_shown :: string
  status_badge :: badge
  message_shown :: "string option"
  error_shown :: "string option"
  created_shown :: string

datatype audit_trail = No_events string | Entries "audit_entry list"

definition renderAuditTrail_entry :: "(string \<Rightarrow> string) \<Rightarrow> processing_log \<Rightarrow> audit_entry" where
  "renderAuditTrail_entry toLocaleString log' =
     \<lparr> entry_key = processing_log.id log',
       stage_shown = replace (stage log') (CHR ''_'') (CHR '' ''),
       status_badge = Badge Outline (Text (processing_log.status log')),
       message_shown = (if truthy (message log') then message log' else None),
       error_shown =
         (case processing_log.error_message log' of
            Some e \<Rightarrow> if truthy (Some e) then Some (''Error: '' @ e) else None
          | None \<Rightarrow> None),
       created_shown = toLocaleString (processing_log.created log') \<rparr>"

definition renderAuditTrail :: "(string \<Rightarrow> string) \<Rightarrow> 'c sheet_state \<Rightarrow> audit_trail" where
  "renderAuditTrail toLocaleString st =
     (if length (logs st) = 0 then No_events ''No processing events recorded yet.''
      else Entries (map (renderAuditTrail_entry toLocaleString) (logs st)))"

section \<open>FileUpload (frontend/js/components/FileUpload.tsx)\<close>

text \<open>
  The state of the component is the list of selected files; \<open>notified\<close> is the list
  last passed to \<^verbatim>\<open>onFilesSelected\<close> (\<open>None\<close> before the first call). \<^verbatim>\<open>maxFiles\<close>
  and the index of \<^verbatim>\<open>removeFile\<close> are numbers of the caller.
\<close>

record 'f file_upload =
  selectedFiles :: "'f list"
  notified :: "'f list option"

text \<open>The \<^verbatim>\<open>maxFiles\<close> the component works with: the prop, or 10 when it is not given.\<close>

definition maxFiles_default :: "int option \<Rightarrow> int" where
  "maxFiles_default maxFiles = (case maxFiles of Some n \<Rightarrow> n | None \<Rightarrow> 10)"

definition initial_file_upload :: "'f file_upload" where
  "initial_file_upload = \<lparr> selectedFiles = [], notified = None \<rparr>"

definition onDrop :: "int \<Rightarrow> 'f list \<Rightarrow> 'f file_upload \<Rightarrow> 'f file_upload" where
  "onDrop maxFiles acceptedFiles st =
     (let newFiles = slice (selectedFiles st @ acceptedFiles) 0 maxFiles
      in st\<lparr>selectedFiles := newFiles, notified := Some newFiles\<rparr>)"

definition removeFile :: "int \<Rightarrow> 'f file_upload \<Rightarrow> 'f file_upload" where
  "removeFile index st =
     (let newFiles = filter_indexed (\<lambda>_ i. int i \<noteq> index) (selectedFiles st)
      in st\<lparr>selectedFiles := newFiles, notified := Some newFiles\<rparr>)"

text \<open>A run of the component: the user's drops and removals, in order.\<close>

datatype 'f file_event = Drop_files "'f list" | Remove_file int

fun file_step :: "int \<Rightarrow> 'f file_upload \<Rightarrow> 'f file_event \<Rightarrow> 'f file_upload" where
  "file_step maxFiles st (Drop_files acceptedFiles) = onDrop maxFiles acceptedFiles st"
| "file_step maxFiles st (Remove_file index) = removeFile index st"

definition file_run :: "int \<Rightarrow> 'f file_event list \<Rightarrow> 'f file_upload" where
  "file_run maxFiles events = foldl (file_step maxFiles) initial_file_upload events"

section \<open>Dashboard (frontend/js/pages/Dashboard.tsx)\<close>

text \<open>
  The dashboard reads the candidates as \<^verbatim>\<open>any\<close>: an object with a \<^verbatim>\<open>status\<close>
  string and whatever else the response holds (the extension of the record).
\<close>

record listed_candidate =
  status :: string

record stats =
  total :: nat
  pending :: nat
  processing :: nat
  completed :: nat
  failed :: nat

record 'c dashboard =
  candidates :: "'c list"
  stats :: stats
  loading :: bool

definition initial_dashboard :: "'c dashboard" where
  "initial_dashboard =
     \<lparr> candidates = [],
       stats = \<lparr> total = 0, pending = 0, processing = 0, completed = 0, failed = 0 \<rparr>,
       loading = True \<rparr>"

text \<open>
  What \<^verbatim>\<open>fetch\<close> and \<^verbatim>\<open>response.json()\<close> give: a rejection, or the decoded body with
  its \<^verbatim>\<open>results\<close> (\<open>None\<close> when the body has none).
\<close>

datatype 'c fetched = Rejected | Data "'c list option"

definition newStats :: "'a listed_candidate_scheme list \<Rightarrow> stats" where
  "newStats results =
     \<lparr> total = length results,
       pending = length (filter (\<lambda>c. listed_candidate.status c = ''pending'') results),
       processing = length (filter (\<lambda>c. listed_candidate.status c = ''processing'') results),
       completed =
         length (filter (\<lambda>c. listed_candidate.status c = ''completed''
                              \<or> listed_candidate.status c = ''processed'') results),
       failed =
         length (filter (\<lambda>c. listed_candidate.status c = ''failed''
                              \<or> listed_candidate.status c = ''rejected'') results) \<rparr>"

text \<open>
  \<^verbatim>\<open>fetchCandidates\<close>: the candidates are set first (to the empty list when the body
  has no results); reading the length of missing results then throws, and the handler
  only clears the loading flag, as it does for a rejected request.
\<close>

definition fetchCandidates ::
  "'a listed_candidate_scheme fetched \<Rightarrow> 'a listed_candidate_scheme dashboard
     \<Rightarrow> 'a listed_candidate_scheme dashboard" where
  "fetchCandidates response st =
     (case response of
        Rejected \<Rightarrow> st\<lparr>loading := False\<rparr>
      | Data None \<Rightarrow> st\<lparr>candidates := [], loading := False\<rparr>
      | Data (Some results) \<Rightarrow>
          st\<lparr>candidates := results, stats := newStats results, loading := False\<rparr>)"

section \<open>Example inputs\<close>

text \<open>Concrete values of the types above, on which the theorems below are instantiated.\<close>

definition example_job :: job_description where
  "example_job =
     \<lparr> job_description.id = 1, title = ''Backend Engineer'',
       description = ''Builds the services'', requirements = None, is_active = True,
       job_description.created = ''2025-01-01T09:00:00Z'',
       job_description.modified = ''2025-01-01T09:00:00Z'' \<rparr>"

definition example_candidate :: candidate where
  "example_candidate =
     \<lparr> candidate.id = 4, candidate.name = ''Ada'', candidate.email = ''ada@example.org'',
       phone = None, linkedin_url = None, github_url = None,
       candidate.status = Pending, celery_task_id = None,
       candidate.error_message = None, audit_log = [],
       job_description = example_job, submitted_by = 1,
       candidate.created = ''2025-01-02T09:00:00Z'',
       candidate.modified = ''2025-01-02T09:00:00Z'',
       resume = None, candidate.evaluation = None \<rparr>"

definition example_evaluation :: evaluation where
  "example_evaluation =
     \<lparr> evaluation.id = 9, evaluation.overall_score = Finite 8, resume_score = Finite 7,
       github_score = None, linkedin_score = None, ai_summary = ''Strong match'',
       evaluation.recommendation = Interview, github_analysis = None,
       linkedin_analysis = None, generated_report = None, evaluation.candidate = 4,
       evaluation.created = ''2025-01-02T10:00:00Z'',
       evaluation.modified = ''2025-01-02T10:00:00Z'' \<rparr>"

definition example_feedback :: stakeholder_feedback where
  "example_feedback =
     \<lparr> stakeholder_feedback.id = 2, comments = ''Still reading'',
       decision = Decision_pending, stakeholder_feedback.evaluation = 9, stakeholder = 3,
       stakeholder_feedback.created = ''2025-01-03T09:00:00Z'',
       stakeholder_feedback.modified = ''2025-01-03T09:00:00Z'' \<rparr>"

definition example_failed_row :: table_candidate where
  "example_failed_row =
     \<lparr> table_candidate.id = 11, table_candidate.name = ''Bob'',
       table_candidate.email = ''bob@example.org'', table_candidate.status = Table_failed,
       job_description_title = ''Backend Engineer'',
       table_candidate.created = ''2025-01-04T09:00:00Z'',
       table_candidate.evaluation = None \<rparr>"

definition example_rejected_row :: table_candidate where
  "example_rejected_row =
     \<lparr> table_candidate.id = 12, table_candidate.name = ''Cyd'',
       table_candidate.email = ''cyd@example.org'', table_candidate.status = Table_rejected,
       job_description_title = ''Backend Engineer'',
       table_candidate.created = ''2025-01-05T09:00:00Z'',
       table_candidate.evaluation =
         Some \<lparr> table_evaluation.overall_score = Finite 3,
                table_evaluation.recommendation = Decline \<rparr> \<rparr>"

definition example_props :: "string candidate_table_props" where
  "example_props =
     \<lparr> candidate_table_props.candidates = [example_failed_row, example_rejected_row],
       onViewDetails = ''handleViewDetails'', onReprocess = Some ''handleReprocess'' \<rparr>"

definition example_card :: card_evaluation where
  "example_card =
     \<lparr> card_evaluation.overall_score = Finite 4, card_evaluation.recommendation = Decline,
       detailed_analysis =
         \<lparr> summary = None, key_highlights = None, concerns = None, skill_matches = None,
           technical_depth = None, experience_assessment = None \<rparr> \<rparr>"

definition example_logs :: "processing_log list" where
  "example_logs =
     [\<lparr> processing_log.id = 31, stage = ''resume_parsing'', processing_log.status = ''success'',
        message = Some ''Parsed 2 pages'', processing_log.error_message = None,
        processing_log.created = ''2025-01-04T09:00:01Z'' \<rparr>,
      \<lparr> processing_log.id = 32, stage = ''profile_data_fetch'', processing_log.status = ''failed'',
        message = Some [], processing_log.error_message = Some ''rate limited'',
        processing_log.created = ''2025-01-04T09:00:07Z'' \<rparr>]"

definition example_sheet :: "string sheet_state" where
  "example_sheet =
     \<lparr> sheet_state.candidate = None, logs = [], sheet_state.loading = True,
       actionLoading = False \<rparr>"

definition example_events :: "string file_event list" where
  "example_events =
     [Drop_files [''a.pdf'', ''b.pdf'', ''c.pdf''], Remove_file 0, Drop_files [''d.txt'']]"

definition example_listed :: "listed_candidate list" where
  "example_listed =
     [\<lparr> listed_candidate.status = ''pending'' \<rparr>, \<lparr> listed_candidate.status = ''processed'' \<rparr>,
      \<lparr> listed_candidate.status = ''rejected'' \<rparr>]"

section \<open>The status, recommendation and decision types\<close>

lemma UNIV_candidate_status:
  "(UNIV :: candidate_status set) = {Pending, Processing, Completed, Error}"
  using candidate_status.exhaust by auto

lemma UNIV_table_status:
  "(UNIV :: table_status set) =
     {Table_pending, Table_processing, Table_completed, Table_failed, Table_processed,
      Table_rejected}"
  using table_status.exhaust by auto

lemma UNIV_decision:
  "(UNIV :: decision set) = {Decision_interview, Decision_decline, Decision_pending}"
  using decision.exhaust by auto

lemma failed_literal: "table_status_literal t = ''failed'' \<longleftrightarrow> t = Table_failed"
  by (cases t) simp_all

section \<open>The reprocess action of the candidate table\<close>

lemma CandidateTable_rows:
  "candidate_table_props.candidates props \<noteq> [] \<Longrightarrow>
   CandidateTable fmt props =
     Rows (map (CandidateTable_row fmt (onViewDetails props) (onReprocess props))
             (candidate_table_props.candidates props))"
  by (simp add: CandidateTable_def)

lemma offers_reprocess_row:
  "offers_reprocess (CandidateTable_row fmt vd (Some h) c)
     \<longleftrightarrow> table_status_literal (table_candidate.status c) = ''failed''"
  by (simp add: offers_reprocess_def CandidateTable_row_def)

text \<open>
  The status badge of each of the six statuses of the table: the four keys of
  \<^verbatim>\<open>variants\<close> have their variant, \<^verbatim>\<open>processed\<close> and \<^verbatim>\<open>rejected\<close> fall back to
  \<^verbatim>\<open>outline\<close>, and no inherited property is read.
\<close>

lemma getStatusBadge_table_status:
  "getStatusBadge (table_status_literal t) =
     Status_badge
       (Variant (case t of Table_pending \<Rightarrow> Secondary | Table_processing \<Rightarrow> Default
                 | Table_failed \<Rightarrow> Destructive | _ \<Rightarrow> Outline))
       (table_status_literal t)"
  by (cases t) (simp_all add: getStatusBadge_def variants_def object_prototype_properties_def)

text \<open>Without an \<^verbatim>\<open>onReprocess\<close> handler no row offers the action, whatever its status.\<close>

lemma offers_reprocess_row_None: "\<not> offers_reprocess (CandidateTable_row fmt vd None c)"
  by (simp add: offers_reprocess_def CandidateTable_row_def)

text \<open>
  C1. With an \<^verbatim>\<open>onReprocess\<close> handler supplied, the table renders one row per
  candidate, and the row of a candidate offers the reprocess action (the RefreshCw
  button calling the handler on the candidate's id) if and only if the candidate's
  status is \<^verbatim>\<open>'failed'\<close>; for any other status the only action is the details button.
\<close>

theorem reprocess_offered_iff_failed:
  assumes "onReprocess props = Some h"
    and "i < length (candidate_table_props.candidates props)"
  shows "\<exists>rows. CandidateTable fmt props = Rows rows
           \<and> length rows = length (candidate_table_props.candidates props)
           \<and> (offers_reprocess (rows ! i)
                \<longleftrightarrow> table_status_literal
                      (table_candidate.status (candidate_table_props.candidates props ! i))
                    = ''failed'')
           \<and> actions_cell (rows ! i) =
               (if table_candidate.status (candidate_table_props.candidates props ! i)
                   = Table_failed
                then [Button Eye (onViewDetails props)
                        (table_candidate.id (candidate_table_props.candidates props ! i)),
                      Button RefreshCw h
                        (table_candidate.id (candidate_table_props.candidates props ! i))]
                else [Button Eye (onViewDetails props)
                        (table_candidate.id (candidate_table_props.candidates props ! i))])"
proof -
  let ?cs = "candidate_table_props.candidates props"
  let ?rows = "map (CandidateTable_row fmt (onViewDetails props) (onReprocess props)) ?cs"
  from assms(2) have "?cs \<noteq> []" by auto
  then have r: "CandidateTable fmt props = Rows ?rows" by (rule CandidateTable_rows)
  have nth: "?rows ! i = CandidateTable_row fmt (onViewDetails props) (Some h) (?cs ! i)"
    using assms by simp
  show ?thesis
  proof (intro exI conjI)
    show "CandidateTable fmt props = Rows ?rows" by (rule r)
    show "length ?rows = length ?cs" by simp
    show "offers_reprocess (?rows ! i)
            \<longleftrightarrow> table_status_literal (table_candidate.status (?cs ! i)) = ''failed''"
      unfolding nth by (rule offers_reprocess_row)
    show "actions_cell (?rows ! i) =
            (if table_candidate.status (?cs ! i) = Table_failed
             then [Button Eye (onViewDetails props) (table_candidate.id (?cs ! i)),
                   Button RefreshCw h (table_candidate.id (?cs ! i))]
             else [Button Eye (onViewDetails props) (table_candidate.id (?cs ! i))])"
      unfolding nth by (simp add: CandidateTable_row_def failed_literal)
  qed
qed

text \<open>
  The table of a failed and a rejected candidate: the first row offers the reprocess
  action, the second does not.
\<close>

theorem reprocess_offered_iff_failed_witness:
  "onReprocess example_props = Some ''handleReprocess''
   \<and> (1::nat) < length (candidate_table_props.candidates example_props)
   \<and> (\<exists>rows. CandidateTable (\<lambda>d. d) example_props = Rows rows
         \<and> length rows = 2
         \<and> offers_reprocess (rows ! 0)
         \<and> \<not> offers_reprocess (rows ! 1)
         \<and> actions_cell (rows ! 0)
             = [Button Eye ''handleViewDetails'' 11, Button RefreshCw ''handleReprocess'' 11]
         \<and> actions_cell (rows ! 1) = [Button Eye ''handleViewDetails'' 12])"
proof -
  have h: "onReprocess example_props = Some ''handleReprocess''"
    by (simp add: example_props_def)
  have l0: "0 < length (candidate_table_props.candidates example_props)"
    and l1: "1 < length (candidate_table_props.candidates example_props)"
    by (simp_all add: example_props_def)
  from reprocess_offered_iff_failed [OF h l0, of "\<lambda>d. d"]
  obtain rows where a: "CandidateTable (\<lambda>d. d) example_props = Rows rows"
    and a0: "offers_reprocess (rows ! 0)"
    and a1: "actions_cell (rows ! 0)
             = [Button Eye ''handleViewDetails'' 11, Button RefreshCw ''handleReprocess'' 11]"
    by (auto simp: example_props_def example_failed_row_def)
  from reprocess_offered_iff_failed [OF h l1, of "\<lambda>d. d"]
  obtain rows' where b: "CandidateTable (\<lambda>d. d) example_props = Rows rows'"
    and b0: "length rows' = 2"
    and b1: "\<not> offers_reprocess (rows' ! 1)"
    and b2: "actions_cell (rows' ! 1) = [Button Eye ''handleViewDetails'' 12]"
    by (auto simp: example_props_def example_rejected_row_def)
  from a b have "rows' = rows" by simp
  with a a0 a1 b0 b1 b2 h l1 show ?thesis by blast
qed

section \<open>The values of the model types\<close>

text \<open>
  C2 (as the code has it). The status of a Candidate of the API model is exactly one of
  the four literals \<^verbatim>\<open>pending\<close>, \<^verbatim>\<open>processing\<close>, \<^verbatim>\<open>completed\<close>, \<^verbatim>\<open>error\<close>, and the status
  of a candidate of the table exactly one of the six literals \<^verbatim>\<open>pending\<close>,
  \<^verbatim>\<open>processing\<close>, \<^verbatim>\<open>completed\<close>, \<^verbatim>\<open>failed\<close>, \<^verbatim>\<open>processed\<close>, \<^verbatim>\<open>rejected\<close>; every one of these
  literals is the status of some value, and no other value is representable.
\<close>

theorem candidate_status_values:
  "candidate_status_literal (candidate.status c)
     \<in> {''pending'', ''processing'', ''completed'', ''error''}
   \<and> range candidate_status_literal = {''pending'', ''processing'', ''completed'', ''error''}
   \<and> table_status_literal (table_candidate.status r)
       \<in> {''pending'', ''processing'', ''completed'', ''failed'', ''processed'', ''rejected''}
   \<and> range table_status_literal
       = {''pending'', ''processing'', ''completed'', ''failed'', ''processed'', ''rejected''}"
proof -
  have a: "candidate_status_literal s \<in> {''pending'', ''processing'', ''completed'', ''error''}"
    for s by (cases s) simp_all
  have b: "table_status_literal t
       \<in> {''pending'', ''processing'', ''completed'', ''failed'', ''processed'', ''rejected''}"
    for t by (cases t) simp_all
  have c: "range candidate_status_literal
       = {''pending'', ''processing'', ''completed'', ''error''}"
    unfolding UNIV_candidate_status by simp
  have d: "range table_status_literal
       = {''pending'', ''processing'', ''completed'', ''failed'', ''processed'', ''rejected''}"
    unfolding UNIV_table_status by simp
  from a b c d show ?thesis by blast
qed

theorem candidate_status_values_witness:
  "candidate_status_literal (candidate.status example_candidate) = ''pending''
   \<and> candidate_status_literal (candidate.status example_candidate)
       \<in> {''pending'', ''processing'', ''completed'', ''error''}
   \<and> table_status_literal (table_candidate.status example_rejected_row) = ''rejected''
   \<and> table_status_literal (table_candidate.status example_rejected_row)
       \<in> {''pending'', ''processing'', ''completed'', ''failed'', ''processed'', ''rejected''}"
  using candidate_status_values [of example_candidate example_rejected_row]
  by (simp add: example_candidate_def example_rejected_row_def)

text \<open>
  A pending candidate is a Candidate of the API model, and its status is none of the
  nine lifecycle states of the specification.
\<close>

theorem candidate_status_not_lifecycle_state:
  "candidate_status_literal (candidate.status example_candidate)
     \<notin> set spec_lifecycle_states"
  by (simp add: example_candidate_def spec_lifecycle_states_def)




text \<open>
  C4 (as the code has it). The decision of a StakeholderFeedback is exactly one of the
  three literals \<^verbatim>\<open>interview\<close>, \<^verbatim>\<open>decline\<close>, \<^verbatim>\<open>pending\<close>; each of them is the decision of
  some value, and no other value is representable.
\<close>

theorem decision_values:
  "decision_literal (stakeholder_feedback.decision f) \<in> {''interview'', ''decline'', ''pending''}
   \<and> range decision_literal = {''interview'', ''decline'', ''pending''}"
proof -
  have a: "decision_literal d \<in> {''interview'', ''decline'', ''pending''}" for d
    by (cases d) simp_all
  have b: "range decision_literal = {''interview'', ''decline'', ''pending''}"
    unfolding UNIV_decision by simp
  from a b show ?thesis by blast
qed

theorem decision_values_witness:
  "decision_literal (stakeholder_feedback.decision example_feedback) = ''pending''
   \<and> decision_literal (stakeholder_feedback.decision example_feedback)
       \<in> {''interview'', ''decline'', ''pending''}"
  using decision_values [of example_feedback] by (simp add: example_feedback_def)

text \<open>
  A feedback whose decision is still pending is a StakeholderFeedback, and its decision
  is none of the specification's three; the specification's \<^verbatim>\<open>comment-only\<close> is the
  decision of no StakeholderFeedback.
\<close>

theorem decision_pending_not_in_spec:
  "decision_literal (stakeholder_feedback.decision example_feedback) \<notin> set spec_decisions
   \<and> ''comment-only'' \<notin> range decision_literal"
  unfolding UNIV_decision by (simp add: example_feedback_def spec_decisions_def)

text \<open>
  C5. The recommendation of an Evaluation is \<^verbatim>\<open>interview\<close> or \<^verbatim>\<open>decline\<close>, and the card
  shows it faithfully: the badge reads "Interview" exactly when the recommendation is
  \<^verbatim>\<open>interview\<close>, and "Decline" otherwise (with the matching variant and icon).
\<close>

theorem evaluation_recommendation_badge:
  "recommendation_literal (evaluation.recommendation ev) \<in> {''interview'', ''decline''}
   \<and> recommendation_literal (card_evaluation.recommendation e) \<in> {''interview'', ''decline''}
   \<and> (badge_text (EvaluationCard_overall e) = ''Interview''
        \<longleftrightarrow> recommendation_literal (card_evaluation.recommendation e) = ''interview'')
   \<and> (badge_text (EvaluationCard_overall e) = ''Decline''
        \<longleftrightarrow> recommendation_literal (card_evaluation.recommendation e) \<noteq> ''interview'')
   \<and> (badge_text (EvaluationCard_overall e) = ''Interview''
        \<longleftrightarrow> badge_variant (EvaluationCard_overall e) = Default
            \<and> badge_icon (EvaluationCard_overall e) = CheckCircle2)
   \<and> (badge_text (EvaluationCard_overall e) = ''Decline''
        \<longleftrightarrow> badge_variant (EvaluationCard_overall e) = Destructive
            \<and> badge_icon (EvaluationCard_overall e) = XCircle)"
proof -
  have a: "recommendation_literal r \<in> {''interview'', ''decline''}" for r
    by (cases r) simp_all
  show ?thesis using a by (simp add: EvaluationCard_overall_def Let_def)
qed

theorem evaluation_recommendation_badge_witness:
  "badge_text (EvaluationCard_overall example_card) = ''Decline''
   \<and> badge_text (EvaluationCard_overall (example_card\<lparr>card_evaluation.recommendation := Interview\<rparr>))
       = ''Interview''
   \<and> recommendation_literal (evaluation.recommendation example_evaluation) = ''interview''"
  using evaluation_recommendation_badge [of example_evaluation example_card]
    evaluation_recommendation_badge
      [of example_evaluation "example_card\<lparr>card_evaluation.recommendation := Interview\<rparr>"]
  by (simp add: example_card_def example_evaluation_def)

section \<open>The audit trail of the candidate sheet\<close>

text \<open>
  C6. For the logs fetched for a candidate, the audit trail has exactly one entry per
  record, in the order of the list; each entry shows the record's stage (its first
  underscore as a space), its status and its created timestamp, the message when it is
  present and not empty, and the error detail when it is present and not empty. For an
  empty list it is the message "No processing events recorded yet." and no entry.
\<close>

theorem audit_trail_entries:
  "(logs st = [] \<longrightarrow>
       renderAuditTrail fmt st = No_events ''No processing events recorded yet.'')
   \<and> (logs st \<noteq> [] \<longrightarrow>
        (\<exists>es. renderAuditTrail fmt st = Entries es
           \<and> length es = length (logs st)
           \<and> (\<forall>i < length (logs st).
                entry_key (es ! i) = processing_log.id (logs st ! i)
              \<and> stage_shown (es ! i) = replace (stage (logs st ! i)) (CHR ''_'') (CHR '' '')
              \<and> status_badge (es ! i)
                  = Badge Outline (Text (processing_log.status (logs st ! i)))
              \<and> created_shown (es ! i) = fmt (processing_log.created (logs st ! i))
              \<and> message_shown (es ! i)
                  = (if truthy (message (logs st ! i)) then message (logs st ! i) else None)
              \<and> error_shown (es ! i)
                  = (if truthy (processing_log.error_message (logs st ! i))
                     then map_option ((@) ''Error: '')
                            (processing_log.error_message (logs st ! i))
                     else None))))
   \<and> (cid \<noteq> 0 \<longrightarrow> logs (fetchData (Some cid) (Some (cres, Some rs)) st) = rs)
   \<and> (cid \<noteq> 0 \<longrightarrow> logs (fetchData (Some cid) (Some (cres, None)) st) = [])"
  by (auto simp: renderAuditTrail_def renderAuditTrail_entry_def fetchData_def
           split: option.splits)

text \<open>
  The sheet of candidate 7 after fetching two log records, and the sheet before any
  fetch.
\<close>

theorem audit_trail_entries_witness:
  "logs example_sheet = []
   \<and> renderAuditTrail (\<lambda>d. d) example_sheet = No_events ''No processing events recorded yet.''
   \<and> (7::int) \<noteq> 0
   \<and> logs (fetchData (Some 7) (Some (''Bob'', Some example_logs)) example_sheet) = example_logs
   \<and> (\<exists>es. renderAuditTrail (\<lambda>d. d)
               (fetchData (Some 7) (Some (''Bob'', Some example_logs)) example_sheet)
             = Entries es
         \<and> length es = 2
         \<and> entry_key (es ! 0) = 31 \<and> entry_key (es ! 1) = 32
         \<and> stage_shown (es ! 0) = ''resume parsing''
         \<and> stage_shown (es ! 1) = ''profile data_fetch''
         \<and> status_badge (es ! 0) = Badge Outline (Text ''success'')
         \<and> message_shown (es ! 0) = Some ''Parsed 2 pages''
         \<and> error_shown (es ! 0) = None
         \<and> message_shown (es ! 1) = None
         \<and> error_shown (es ! 1) = Some ''Error: rate limited''
         \<and> created_shown (es ! 1) = ''2025-01-04T09:00:07Z'')"
proof -
  let ?st = "fetchData (Some 7) (Some (''Bob'', Some example_logs)) example_sheet"
  have e: "logs example_sheet = []" by (simp add: example_sheet_def)
  have l: "logs ?st = example_logs"
    using audit_trail_entries [of example_sheet "\<lambda>d. d" 7 "''Bob''" example_logs] by simp
  have n: "logs ?st \<noteq> []" unfolding l by (simp add: example_logs_def)
  have len: "length (logs ?st) = 2" unfolding l by (simp add: example_logs_def)
  from audit_trail_entries [of example_sheet "\<lambda>d. d" 7 "''Bob''" example_logs] e
  have r0: "renderAuditTrail (\<lambda>d. d) example_sheet
              = No_events ''No processing events recorded yet.''"
    by blast
  from audit_trail_entries [of ?st "\<lambda>d. d" 7 "''Bob''" example_logs] n
  obtain es where r: "renderAuditTrail (\<lambda>d. d) ?st = Entries es"
    and le: "length es = length (logs ?st)"
    and each: "\<forall>i < length (logs ?st).
                entry_key (es ! i) = processing_log.id (logs ?st ! i)
              \<and> stage_shown (es ! i) = replace (stage (logs ?st ! i)) (CHR ''_'') (CHR '' '')
              \<and> status_badge (es ! i)
                  = Badge Outline (Text (processing_log.status (logs ?st ! i)))
              \<and> created_shown (es ! i) = (processing_log.created (logs ?st ! i))
              \<and> message_shown (es ! i)
                  = (if truthy (message (logs ?st ! i)) then message (logs ?st ! i) else None)
              \<and> error_shown (es ! i)
                  = (if truthy (processing_log.error_message (logs ?st ! i))
                     then map_option ((@) ''Error: '')
                            (processing_log.error_message (logs ?st ! i))
                     else None)"
    by blast
  have i0: "0 < length (logs ?st)" and i1: "1 < length (logs ?st)" using len by simp_all
  from each i0 have f0: "entry_key (es ! 0) = 31 \<and> stage_shown (es ! 0) = ''resume parsing''
         \<and> status_badge (es ! 0) = Badge Outline (Text ''success'')
         \<and> message_shown (es ! 0) = Some ''Parsed 2 pages''
         \<and> error_shown (es ! 0) = None"
    unfolding l by (simp add: example_logs_def)
  from each i1 have f1: "entry_key (es ! 1) = 32 \<and> stage_shown (es ! 1) = ''profile data_fetch''
         \<and> message_shown (es ! 1) = None
         \<and> error_shown (es ! 1) = Some ''Error: rate limited''
         \<and> created_shown (es ! 1) = ''2025-01-04T09:00:07Z''"
    unfolding l by (simp add: example_logs_def)
  from le len have "length es = 2" by simp
  with e r0 l r f0 f1 show ?thesis by auto
qed

section \<open>The selection of the file upload\<close>

lemma slice_from_0: "0 \<le> m \<Longrightarrow> slice xs 0 m = take (nat m) xs"
  by (auto simp: slice_def Let_def min_def)

lemma length_filter_from: "length (filter_from k p xs) \<le> length xs"
  by (induction xs arbitrary: k) (auto simp: le_SucI)

lemma filter_from_all: "filter_from k (\<lambda>_ _. True) xs = xs"
  by (induction xs arbitrary: k) auto

lemma filter_from_skip: "i < k \<Longrightarrow> filter_from k (\<lambda>_ j. j \<noteq> i) xs = xs"
  by (induction xs arbitrary: k) auto

lemma filter_from_beyond: "k + length xs \<le> i \<Longrightarrow> filter_from k (\<lambda>_ j. j \<noteq> i) xs = xs"
  by (induction xs arbitrary: k) auto

lemma filter_from_remove:
  "k \<le> i \<Longrightarrow> i < k + length xs \<Longrightarrow>
   filter_from k (\<lambda>_ j. j \<noteq> i) xs = take (i - k) xs @ drop (Suc (i - k)) xs"
proof (induction xs arbitrary: k)
  case Nil
  then show ?case by simp
next
  case (Cons x xs)
  show ?case
  proof (cases "k = i")
    case True
    then show ?thesis by (simp add: filter_from_skip)
  next
    case False
    with Cons.prems have le: "Suc k \<le> i" "i < Suc k + length xs" by auto
    then have d: "i - k = Suc (i - Suc k)" by simp
    from Cons.IH [OF le] False show ?thesis
      unfolding d by simp
  qed
qed

lemma filter_from_int:
  "0 \<le> index \<Longrightarrow>
   filter_from k (\<lambda>_ j. int j \<noteq> index) xs = filter_from k (\<lambda>_ j. j \<noteq> nat index) xs"
  by (induction xs arbitrary: k) auto

lemma removeFile_in_range:
  "0 \<le> index \<Longrightarrow> nat index < length (selectedFiles st) \<Longrightarrow>
   selectedFiles (removeFile index st) =
     take (nat index) (selectedFiles st) @ drop (Suc (nat index)) (selectedFiles st)"
  using filter_from_remove [of 0 "nat index" "selectedFiles st"]
  by (simp add: removeFile_def filter_indexed_def filter_from_int Let_def)

lemma removeFile_out_of_range:
  assumes "index < 0 \<or> length (selectedFiles st) \<le> nat index"
  shows "selectedFiles (removeFile index st) = selectedFiles st"
proof (cases "index < 0")
  case True
  then show ?thesis by (simp add: removeFile_def filter_indexed_def filter_from_all Let_def)
next
  case False
  with assms have "0 \<le> index" "0 + length (selectedFiles st) \<le> nat index" by auto
  then show ?thesis
    by (simp add: removeFile_def filter_indexed_def filter_from_int filter_from_beyond Let_def)
qed

lemma onDrop_selected:
  "0 \<le> maxFiles \<Longrightarrow>
   selectedFiles (onDrop maxFiles acceptedFiles st)
     = take (nat maxFiles) (selectedFiles st @ acceptedFiles)"
  by (simp add: onDrop_def Let_def slice_from_0)

lemma file_step_bounded:
  assumes "0 \<le> maxFiles" and "int (length (selectedFiles st)) \<le> maxFiles"
  shows "int (length (selectedFiles (file_step maxFiles st ev))) \<le> maxFiles"
proof (cases ev)
  case (Drop_files acc)
  with assms(1) show ?thesis by (simp add: onDrop_selected)
next
  case (Remove_file index)
  have "length (selectedFiles (removeFile index st)) \<le> length (selectedFiles st)"
    by (simp add: removeFile_def filter_indexed_def length_filter_from Let_def)
  with assms(2) Remove_file show ?thesis by simp
qed

lemma foldl_file_step_bounded:
  "0 \<le> maxFiles \<Longrightarrow> int (length (selectedFiles st)) \<le> maxFiles \<Longrightarrow>
   int (length (selectedFiles (foldl (file_step maxFiles) st events))) \<le> maxFiles"
proof (induction events arbitrary: st)
  case Nil
  then show ?case by simp
next
  case (Cons ev events)
  from Cons.prems have "int (length (selectedFiles (file_step maxFiles st ev))) \<le> maxFiles"
    by (rule file_step_bounded)
  with Cons.IH Cons.prems(1) show ?case by simp
qed

text \<open>
  C8. For a maximum that is a count (not negative), after any sequence of drops and
  removals from the initial empty selection the selected files are at most
  \<^verbatim>\<open>maxFiles\<close> (at most 10 when the prop is not given). A drop appends the accepted files
  after the selected ones and keeps the first \<^verbatim>\<open>maxFiles\<close>; \<^verbatim>\<open>removeFile(i)\<close> removes
  exactly the file at index \<open>i\<close> and keeps the others in their order (and removes
  nothing when there is no file at \<open>i\<close>).
\<close>

theorem file_selection_bounded:
  assumes "0 \<le> maxFiles"
  shows "int (length (selectedFiles (file_run maxFiles events))) \<le> maxFiles
       \<and> length (selectedFiles (file_run (maxFiles_default None) events)) \<le> 10
       \<and> selectedFiles (onDrop maxFiles acceptedFiles st)
           = take (nat maxFiles) (selectedFiles st @ acceptedFiles)
       \<and> (0 \<le> index \<and> nat index < length (selectedFiles st) \<longrightarrow>
            selectedFiles (removeFile index st)
              = take (nat index) (selectedFiles st) @ drop (Suc (nat index)) (selectedFiles st))
       \<and> (index < 0 \<or> length (selectedFiles st) \<le> nat index \<longrightarrow>
            selectedFiles (removeFile index st) = selectedFiles st)"
proof -
  have a: "int (length (selectedFiles (file_run m events))) \<le> m" if "0 \<le> m" for m
    unfolding file_run_def using that
    by (rule foldl_file_step_bounded) (simp add: initial_file_upload_def that)
  have b: "length (selectedFiles (file_run (maxFiles_default None) events)) \<le> 10"
    using a [of 10] by (simp add: maxFiles_default_def)
  show ?thesis
    using a [OF assms] b onDrop_selected [OF assms] removeFile_in_range
      removeFile_out_of_range
    by blast
qed

text \<open>
  With room for two files: dropping three keeps the first two, removing index 0 leaves
  the second, and a further drop appends after it.
\<close>

theorem file_selection_bounded_witness:
  "(0::int) \<le> 2
   \<and> selectedFiles (file_run 2 example_events) = [''b.pdf'', ''d.txt'']
   \<and> int (length (selectedFiles (file_run 2 example_events))) \<le> 2
   \<and> selectedFiles (onDrop 2 [''a.pdf'', ''b.pdf'', ''c.pdf''] initial_file_upload)
       = [''a.pdf'', ''b.pdf'']
   \<and> (0::int) \<le> 0
   \<and> nat 0 < length (selectedFiles (onDrop 2 [''a.pdf'', ''b.pdf'', ''c.pdf''] initial_file_upload))
   \<and> selectedFiles
        (removeFile 0 (onDrop 2 [''a.pdf'', ''b.pdf'', ''c.pdf''] initial_file_upload))
       = [''b.pdf'']"
proof -
  let ?st = "onDrop 2 [''a.pdf'', ''b.pdf'', ''c.pdf''] (initial_file_upload :: string file_upload)"
  have h: "(0::int) \<le> 2" by simp
  have d: "selectedFiles ?st = [''a.pdf'', ''b.pdf'']"
    using file_selection_bounded [OF h, of "[] :: string file_event list" "[''a.pdf'', ''b.pdf'', ''c.pdf'']"
        "initial_file_upload :: string file_upload" 0]
    by (simp add: initial_file_upload_def)
  have r: "selectedFiles (removeFile 0 ?st) = [''b.pdf'']"
    using file_selection_bounded [OF h, of "[] :: string file_event list" "[]" ?st 0] d by simp
  have run: "selectedFiles (file_run 2 example_events) = [''b.pdf'', ''d.txt'']"
    using file_selection_bounded [OF h, of "[] :: string file_event list" "[''d.txt'']" "removeFile 0 ?st" 0] r
    by (simp add: file_run_def example_events_def)
  have b: "int (length (selectedFiles (file_run 2 example_events))) \<le> 2"
    using file_selection_bounded [OF h, of example_events "[]" ?st 0] by blast
  from h d r run b show ?thesis by simp
qed

section \<open>The score badge and the score colour\<close>

text \<open>
  C9. For every score that is a number (any value of the type but NaN), the badge of the
  table and the colour of the card classify it alike: the badge is \<^verbatim>\<open>default\<close> exactly
  when the colour is green, which is when \<open>s \<ge> 7\<close>; \<^verbatim>\<open>destructive\<close> exactly when the
  colour is red, which is when \<open>s < 5\<close>; and \<^verbatim>\<open>secondary\<close> exactly when the colour is
  yellow, which is when \<open>5 \<le> s < 7\<close>.
\<close>

theorem score_badge_matches_score_color:
  assumes "s \<noteq> NaN"
  shows "(variant_of (getScoreBadge s) = Default \<longleftrightarrow> getScoreColor s = ''text-green-600'')
       \<and> (getScoreColor s = ''text-green-600'' \<longleftrightarrow> js_ge s (Finite 7))
       \<and> (variant_of (getScoreBadge s) = Destructive \<longleftrightarrow> getScoreColor s = ''text-red-600'')
       \<and> (getScoreColor s = ''text-red-600'' \<longleftrightarrow> js_lt s (Finite 5))
       \<and> (variant_of (getScoreBadge s) = Secondary \<longleftrightarrow> getScoreColor s = ''text-yellow-600'')
       \<and> (getScoreColor s = ''text-yellow-600''
            \<longleftrightarrow> js_ge s (Finite 5) \<and> js_lt s (Finite 7))"
proof (cases s)
  case (Finite r)
  then show ?thesis by (simp add: getScoreBadge_def getScoreColor_def)
next
  case PosInfinity
  then show ?thesis by (simp add: getScoreBadge_def getScoreColor_def)
next
  case NegInfinity
  then show ?thesis by (simp add: getScoreBadge_def getScoreColor_def)
next
  case NaN
  with assms show ?thesis by simp
qed

text \<open>The scores 8, 6 and 3: green and default, yellow and secondary, red and destructive.\<close>

theorem score_badge_matches_score_color_witness:
  "Finite 8 \<noteq> NaN \<and> Finite 6 \<noteq> NaN \<and> Finite 3 \<noteq> NaN
   \<and> variant_of (getScoreBadge (Finite 8)) = Default
   \<and> getScoreColor (Finite 8) = ''text-green-600''
   \<and> variant_of (getScoreBadge (Finite 6)) = Secondary
   \<and> getScoreColor (Finite 6) = ''text-yellow-600''
   \<and> variant_of (getScoreBadge (Finite 3)) = Destructive
   \<and> getScoreColor (Finite 3) = ''text-red-600''"
proof -
  have h8: "Finite 8 \<noteq> NaN" and h6: "Finite 6 \<noteq> NaN" and h3: "Finite 3 \<noteq> NaN"
    by simp_all
  from score_badge_matches_score_color [OF h8] score_badge_matches_score_color [OF h6]
    score_badge_matches_score_color [OF h3]
  show ?thesis by simp
qed

text \<open>
  NaN is the one value on which the two differ: no comparison holds of it, so the badge
  keeps its initial \<^verbatim>\<open>secondary\<close> while the colour falls through to red.
\<close>

lemma score_badge_and_color_at_NaN:
  "variant_of (getScoreBadge NaN) = Secondary \<and> getScoreColor NaN = ''text-red-600''"
  by (simp add: getScoreBadge_def getScoreColor_def)

section \<open>The statistics of the dashboard\<close>

lemma counted_step:
  fixes s :: string
  shows "(if s = ''pending'' then 1 else 0) + (if s = ''processing'' then 1 else 0)
       + (if s = ''completed'' \<or> s = ''processed'' then 1 else 0)
       + (if s = ''failed'' \<or> s = ''rejected'' then 1 else 0)
       = (if s \<in> {''pending'', ''processing'', ''completed'', ''processed'', ''failed'',
                  ''rejected''}
          then 1 else (0::nat))"
  by auto

lemma newStats_sum:
  "pending (newStats rs) + processing (newStats rs) + completed (newStats rs)
     + failed (newStats rs)
   = length (filter (\<lambda>c. listed_candidate.status c
        \<in> {''pending'', ''processing'', ''completed'', ''processed'', ''failed'',
           ''rejected''}) rs)"
proof (induction rs)
  case Nil
  then show ?case by (simp add: newStats_def)
next
  case (Cons c rs)
  let ?known = "\<lambda>c. listed_candidate.status c
        \<in> {''pending'', ''processing'', ''completed'', ''processed'', ''failed'', ''rejected''}"
  have "pending (newStats (c # rs)) + processing (newStats (c # rs))
        + completed (newStats (c # rs)) + failed (newStats (c # rs))
      = ((if listed_candidate.status c = ''pending'' then 1 else 0)
         + (if listed_candidate.status c = ''processing'' then 1 else 0)
         + (if listed_candidate.status c = ''completed''
               \<or> listed_candidate.status c = ''processed'' then 1 else 0)
         + (if listed_candidate.status c = ''failed''
               \<or> listed_candidate.status c = ''rejected'' then 1 else 0))
        + (pending (newStats rs) + processing (newStats rs) + completed (newStats rs)
           + failed (newStats rs))"
    by (simp add: newStats_def)
  also have "\<dots> = (if ?known c then 1 else 0) + length (filter ?known rs)"
    unfolding counted_step Cons.IH ..
  also have "\<dots> = length (filter ?known (c # rs))"
    by simp
  finally show ?case .
qed

lemma length_filter_eq_iff: "length (filter P xs) = length xs \<longleftrightarrow> (\<forall>x\<in>set xs. P x)"
  by (metis filter_id_conv length_filter_less less_irrefl_nat)

text \<open>
  C10 (as the code has it). For every list of candidates the response holds, total is
  the length of the list, pending counts the status \<^verbatim>\<open>pending\<close>, processing counts
  \<^verbatim>\<open>processing\<close>, completed counts \<^verbatim>\<open>completed\<close> or \<^verbatim>\<open>processed\<close>, failed counts \<^verbatim>\<open>failed\<close>
  or \<^verbatim>\<open>rejected\<close>. The four counters add up to the number of candidates with one of these
  six statuses: at most total, and total exactly when every candidate of the list has
  one of the six.
\<close>

theorem stats_count_known_statuses:
  fixes results :: "'a listed_candidate_scheme list"
  shows "dashboard.stats (fetchCandidates (Data (Some results)) st) = newStats results
       \<and> total (newStats results) = length results
       \<and> pending (newStats results)
           = length (filter (\<lambda>c. listed_candidate.status c = ''pending'') results)
       \<and> processing (newStats results)
           = length (filter (\<lambda>c. listed_candidate.status c = ''processing'') results)
       \<and> completed (newStats results)
           = length (filter (\<lambda>c. listed_candidate.status c = ''completed''
                                  \<or> listed_candidate.status c = ''processed'') results)
       \<and> failed (newStats results)
           = length (filter (\<lambda>c. listed_candidate.status c = ''failed''
                                  \<or> listed_candidate.status c = ''rejected'') results)
       \<and> pending (newStats results) + processing (newStats results)
           + completed (newStats results) + failed (newStats results)
           = length (filter (\<lambda>c. listed_candidate.status c
               \<in> {''pending'', ''processing'', ''completed'', ''processed'', ''failed'',
                  ''rejected''})
               results)
       \<and> pending (newStats results) + processing (newStats results)
           + completed (newStats results) + failed (newStats results)
           \<le> total (newStats results)
       \<and> (pending (newStats results) + processing (newStats results)
           + completed (newStats results) + failed (newStats results)
           = total (newStats results)
            \<longleftrightarrow> (\<forall>c \<in> set results. listed_candidate.status c
               \<in> {''pending'', ''processing'', ''completed'', ''processed'', ''failed'',
                  ''rejected''}))"
proof -
  have s: "dashboard.stats (fetchCandidates (Data (Some results)) st) = newStats results"
    by (simp add: fetchCandidates_def)
  have t: "total (newStats results) = length results" by (simp add: newStats_def)
  show ?thesis
    unfolding s newStats_sum t length_filter_eq_iff
    by (simp add: newStats_def)
qed

text \<open>
  A pending, a processed and a rejected candidate: every status is one of the six, and
  the counters 1, 0, 1, 1 add up to the total 3.
\<close>

theorem stats_count_known_statuses_witness:
  "dashboard.stats (fetchCandidates (Data (Some example_listed)) initial_dashboard)
     = \<lparr> total = 3, pending = 1, processing = 0, completed = 1, failed = 1 \<rparr>
   \<and> pending (newStats example_listed) + processing (newStats example_listed)
       + completed (newStats example_listed) + failed (newStats example_listed)
       = total (newStats example_listed)"
proof -
  have h: "\<forall>c \<in> set example_listed. listed_candidate.status c
               \<in> {''pending'', ''processing'', ''completed'', ''processed'', ''failed'',
                  ''rejected''}"
    by (simp add: example_listed_def)
  have v: "newStats example_listed
     = \<lparr> total = 3, pending = 1, processing = 0, completed = 1, failed = 1 \<rparr>"
    by (simp add: newStats_def example_listed_def)
  from stats_count_known_statuses [of example_listed initial_dashboard] h v
  show ?thesis by simp
qed

text \<open>
  A candidate whose status is the API model's \<^verbatim>\<open>error\<close> is counted in total and in none
  of the four counters.
\<close>

theorem stats_sum_below_total:
  "total (dashboard.stats
            (fetchCandidates
               (Data (Some [\<lparr> listed_candidate.status = candidate_status_literal Error \<rparr>]))
               initial_dashboard)) = 1
   \<and> pending (dashboard.stats
            (fetchCandidates
               (Data (Some [\<lparr> listed_candidate.status = candidate_status_literal Error \<rparr>]))
               initial_dashboard))
     + processing (dashboard.stats
            (fetchCandidates
               (Data (Some [\<lparr> listed_candidate.status = candidate_status_literal Error \<rparr>]))
               initial_dashboard))
     + completed (dashboard.stats
            (fetchCandidates
               (Data (Some [\<lparr> listed_candidate.status = candidate_status_literal Error \<rparr>]))
               initial_dashboard))
     + failed (dashboard.stats
            (fetchCandidates
               (Data (Some [\<lparr> listed_candidate.status = candidate_status_literal Error \<rparr>]))
               initial_dashboard)) = 0
   \<and> pending (dashboard.stats
            (fetchCandidates
               (Data (Some [\<lparr> listed_candidate.status = candidate_status_literal Error \<rparr>]))
               initial_dashboard))
     + processing (dashboard.stats
            (fetchCandidates
               (Data (Some [\<lparr> listed_candidate.status = candidate_status_literal Error \<rparr>]))
               initial_dashboard))
     + completed (dashboard.stats
            (fetchCandidates
               (Data (Some [\<lparr> listed_candidate.status = candidate_status_literal Error \<rparr>]))
               initial_dashboard))
     + failed (dashboard.stats
            (fetchCandidates
               (Data (Some [\<lparr> listed_candidate.status = candidate_status_literal Error \<rparr>]))
               initial_dashboard))
     \<noteq> total (dashboard.stats
            (fetchCandidates
               (Data (Some [\<lparr> listed_candidate.status = candidate_status_literal Error \<rparr>]))
               initial_dashboard))"
  by (simp add: fetchCandidates_def newStats_def)

end
